theory Spec2Isabelle
  imports Main
begin

section \<open>The element tree returned by a component\<close>

text \<open>
  \<^verbatim>\<open>src/components/NewsCard.tsx\<close> is one function component. Its body is a single
  JSX expression, so a call of \<open>NewsCard\<close> returns a tree of elements: each element has
  a type (an imported component or an intrinsic tag), its properties in the order they are
  written, and its children. A \<open>{expr}\<close> child of string type is a text child.
\<close>

datatype elem_type =
    Card | CardHeader | CardContent   \<comment> \<open>from \<open>@/components/ui/card\<close>\<close>
  | Badge                             \<comment> \<open>from \<open>@/components/ui/badge\<close>\<close>
  | Image_next                        \<comment> \<open>\<open>Image\<close> from \<open>next/image\<close>\<close>
  | Intrinsic string                  \<comment> \<open>\<open>div\<close>, \<open>h3\<close>, \<open>p\<close>, \<open>span\<close>\<close>

datatype prop_value =
    Str string     \<comment> \<open>\<open>name="..."\<close> or \<open>name={string expression}\<close>\<close>
  | Flag bool      \<comment> \<open>a bare attribute such as \<open>fill\<close> is \<open>true\<close>\<close>

datatype node =
    Text string
  | Elem elem_type "(string \<times> prop_value) list" "node list"

text \<open>
  \<open>interface NewsCardProps\<close>. TypeScript types are structural: the object a caller
  passes may carry further properties, which is why the theorems below are stated for the
  extensible record.
\<close>

record NewsCardProps =
  title :: string
  imageUrl :: string
  summary :: string
  publicationDate :: string
  source :: string

section \<open>The host's \<open>Date\<close>\<close>

text \<open>
  Line 41 is \<open>new Date(publicationDate).toLocaleDateString()\<close>. Both calls are built-ins
  of the JavaScript host. What the language fixes is written out; what it leaves to the
  implementation is a field of the host:
  \<^item> \<open>parse_rest\<close>: the result of \<open>Date.parse\<close> on every string that is not a date-only
    string \<open>YYYY-MM-DD\<close> with legal month and day (other ISO forms and the
    implementation's own fallback formats); \<open>None\<close> is the time value NaN;
  \<^item> \<open>local_tza\<close>: the offset of the host's time zone from UTC, in milliseconds, at a
    given UTC time value;
  \<^item> \<open>short_date\<close>: the default locale's short rendering of a calendar date given as
    year, month (1 to 12) and day of the month.
\<close>

record host =
  parse_rest :: "string \<Rightarrow> int option"
  local_tza :: "int \<Rightarrow> int"
  short_date :: "int \<Rightarrow> int \<Rightarrow> int \<Rightarrow> string"

definition msPerDay :: int where
  "msPerDay = 86400000"

definition digit_val :: "char \<Rightarrow> int option" where
  "digit_val c =
     (let n = (of_char c :: nat) in if 48 \<le> n \<and> n \<le> 57 then Some (int n - 48) else None)"

fun digits_val :: "int \<Rightarrow> string \<Rightarrow> int option" where
  "digits_val acc [] = Some acc"
| "digits_val acc (c # cs) =
     (case digit_val c of None \<Rightarrow> None | Some v \<Rightarrow> digits_val (10 * acc + v) cs)"

definition InLeapYear :: "int \<Rightarrow> bool" where
  "InLeapYear y = (if y mod 4 \<noteq> 0 then False else if y mod 100 \<noteq> 0 then True else y mod 400 = 0)"

definition DaysInMonth :: "int \<Rightarrow> int \<Rightarrow> int" where
  "DaysInMonth y m =
     (if m = 2 then (if InLeapYear y then 29 else 28)
      else if m = 4 \<or> m = 6 \<or> m = 9 \<or> m = 11 then 30 else 31)"

text \<open>
  \<open>MakeDay\<close>: the number of days from 1970-01-01 to the given date of the proleptic
  Gregorian calendar (month 1 to 12), and \<open>YearMonthDate\<close>, its inverse
  (\<open>YearFromTime\<close>, \<open>MonthFromTime\<close>, \<open>DateFromTime\<close> of one day number).
  \<open>div\<close> on \<open>int\<close> rounds down, as \<open>floor\<close> does.
\<close>

definition MakeDay :: "int \<Rightarrow> int \<Rightarrow> int \<Rightarrow> int" where
  "MakeDay y m d =
     (let y' = (if m \<le> 2 then y - 1 else y);
          era = y' div 400;
          yoe = y' - era * 400;
          doy = (153 * (if m > 2 then m - 3 else m + 9) + 2) div 5 + d - 1;
          doe = yoe * 365 + yoe div 4 - yoe div 100 + doy
      in era * 146097 + doe - 719468)"

definition YearMonthDate :: "int \<Rightarrow> int \<times> int \<times> int" where
  "YearMonthDate z =
     (let z' = z + 719468;
          era = z' div 146097;
          doe = z' - era * 146097;
          yoe = (doe - doe div 1460 + doe div 36524 - doe div 146096) div 365;
          doy = doe - (365 * yoe + yoe div 4 - yoe div 100);
          mp = (5 * doy + 2) div 153;
          d = doy - (153 * mp + 2) div 5 + 1;
          m = (if mp < 10 then mp + 3 else mp - 9);
          y = yoe + era * 400
      in (if m \<le> 2 then y + 1 else y, m, d))"

definition Day :: "int \<Rightarrow> int" where
  "Day t = t div msPerDay"

text \<open>The date-only form \<open>YYYY-MM-DD\<close> of the date-time string format.\<close>

definition iso_date_only :: "string \<Rightarrow> (int \<times> int \<times> int) option" where
  "iso_date_only s =
     (if length s = 10 \<and> s ! 4 = CHR ''-'' \<and> s ! 7 = CHR ''-'' then
        (case (digits_val 0 (take 4 s), digits_val 0 (take 2 (drop 5 s)),
               digits_val 0 (drop 8 s)) of
           (Some y, Some m, Some d) \<Rightarrow>
             if 1 \<le> m \<and> m \<le> 12 \<and> 1 \<le> d \<and> d \<le> DaysInMonth y m then Some (y, m, d)
             else None
         | _ \<Rightarrow> None)
      else None)"

text \<open>
  \<open>new Date(s)\<close> for a string \<open>s\<close>: the time value is \<open>Date.parse(s)\<close>. A date-only
  string is read as midnight UTC of that day; every other string is the host's business.
  The constructor never throws.
\<close>

definition Date_new :: "'h host_scheme \<Rightarrow> string \<Rightarrow> int option" where
  "Date_new h s =
     (case iso_date_only s of
        Some (y, m, d) \<Rightarrow> Some (MakeDay y m d * msPerDay)
      | None \<Rightarrow> parse_rest h s)"

text \<open>
  \<open>toLocaleDateString()\<close> with no arguments: \<open>"Invalid Date"\<close> for NaN; otherwise the
  time value is moved to the host's local time and the calendar day it falls on is
  rendered by the default locale. It never throws.
\<close>

definition toLocaleDateString :: "'h host_scheme \<Rightarrow> int option \<Rightarrow> string" where
  "toLocaleDateString h tv =
     (case tv of
        None \<Rightarrow> ''Invalid Date''
      | Some t \<Rightarrow>
          (case YearMonthDate (Day (t + local_tza h t)) of
             (y, m, d) \<Rightarrow> short_date h y m d))"

section \<open>The component\<close>

text \<open>
  Lines 13 to 47. The body is one \<open>return\<close> of a JSX expression: no hook, no assignment,
  no branch, no \<open>throw\<close>. The only calls are the two into the host on line 41, so the
  host is an argument of the model. Class names and property order are those of the
  source.
\<close>

definition NewsCard :: "'h host_scheme \<Rightarrow> 'a NewsCardProps_scheme \<Rightarrow> node" where
  "NewsCard h p =
     Elem Card
       [(''className'', Str ''overflow-hidden transition-all duration-300 hover:scale-[1.02] bg-white/10 backdrop-blur-lg border-white/20'')]
       [Elem (Intrinsic ''div'') [(''className'', Str ''relative h-48 w-full'')]
          [Elem Image_next
             [(''src'', Str (imageUrl p)),
              (''alt'', Str (title p)),
              (''fill'', Flag True),
              (''className'', Str ''object-cover''),
              (''priority'', Flag True)]
             []],
        Elem CardHeader [(''className'', Str ''text-white'')]
          [Elem (Intrinsic ''h3'') [(''className'', Str ''text-xl font-bold line-clamp-2'')]
             [Text (title p)]],
        Elem CardContent [(''className'', Str ''space-y-4'')]
          [Elem (Intrinsic ''p'') [(''className'', Str ''text-gray-300 line-clamp-3'')]
             [Text (summary p)],
           Elem (Intrinsic ''div'') [(''className'', Str ''flex justify-between items-center'')]
             [Elem Badge
                [(''variant'', Str ''secondary''),
                 (''className'', Str ''bg-white/20 text-white hover:bg-white/30'')]
                [Text (source p)],
              Elem (Intrinsic ''span'') [(''className'', Str ''text-sm text-gray-400'')]
                [Text (toLocaleDateString h (Date_new h (publicationDate p)))]]]]"

section \<open>Observations on a tree\<close>

text \<open>The visible text of a node: its text descendants, in document order.\<close>

fun text_content :: "node \<Rightarrow> string" where
  "text_content (Text s) = s"
| "text_content (Elem ty ps cs) = concat (map text_content cs)"

text \<open>All elements of a given type in a tree, in document order.\<close>

fun find_elems :: "elem_type \<Rightarrow> node \<Rightarrow> node list" where
  "find_elems ty (Text s) = []"
| "find_elems ty (Elem ty' ps cs) =
     (if ty' = ty then [Elem ty' ps cs] else []) @ concat (map (find_elems ty) cs)"

fun children :: "node \<Rightarrow> node list" where
  "children (Text s) = []"
| "children (Elem ty ps cs) = cs"

fun get_prop :: "string \<Rightarrow> node \<Rightarrow> prop_value option" where
  "get_prop k (Text s) = None"
| "get_prop k (Elem ty ps cs) = map_of ps k"

text \<open>\<open>className\<close> is a space-separated list of class names.\<close>

fun class_tokens :: "string \<Rightarrow> string \<Rightarrow> string list" where
  "class_tokens w [] = (if w = [] then [] else [w])"
| "class_tokens w (c # cs) =
     (if c = CHR '' '' then (if w = [] then [] else [w]) @ class_tokens [] cs
      else class_tokens (w @ [c]) cs)"

fun class_list :: "node \<Rightarrow> string list" where
  "class_list (Text s) = []"
| "class_list (Elem ty ps cs) =
     (case map_of ps ''className'' of
        Some (Str v) \<Rightarrow> class_tokens [] v
      | _ \<Rightarrow> [])"

definition has_class :: "string \<Rightarrow> node \<Rightarrow> bool" where
  "has_class k n = (k \<in> set (class_list n))"

text \<open>
  How often a string is handed to the output as a whole: as a text child or as the value
  of a property.
\<close>

fun occurrences :: "string \<Rightarrow> node \<Rightarrow> nat" where
  "occurrences s (Text x) = (if x = s then 1 else 0)"
| "occurrences s (Elem ty ps cs) =
     length (filter (\<lambda>kv. snd kv = Str s) ps) + sum_list (map (occurrences s) cs)"

text \<open>
  The three regions of the card are the children of the \<open>Card\<close> element, in order:
  media, header, body.
\<close>

definition media_region :: "node \<Rightarrow> node option" where
  "media_region t = (case children t of m # _ \<Rightarrow> Some m | _ \<Rightarrow> None)"

definition header_region :: "node \<Rightarrow> node option" where
  "header_region t = (case children t of _ # r # _ \<Rightarrow> Some r | _ \<Rightarrow> None)"

definition body_region :: "node \<Rightarrow> node option" where
  "body_region t = (case children t of _ # _ # b # _ \<Rightarrow> Some b | _ \<Rightarrow> None)"

text \<open>
  Every string of the tree that is not the title: the other fields, the date text, and
  the literals of the source.
\<close>

definition other_strings :: "'h host_scheme \<Rightarrow> 'a NewsCardProps_scheme \<Rightarrow> string list" where
  "other_strings h p =
     [imageUrl p, summary p, source p,
      toLocaleDateString h (Date_new h (publicationDate p)),
      ''overflow-hidden transition-all duration-300 hover:scale-[1.02] bg-white/10 backdrop-blur-lg border-white/20'',
      ''relative h-48 w-full'', ''object-cover'', ''text-white'',
      ''text-xl font-bold line-clamp-2'', ''space-y-4'', ''text-gray-300 line-clamp-3'',
      ''flex justify-between items-center'', ''secondary'',
      ''bg-white/20 text-white hover:bg-white/30'', ''text-sm text-gray-400'']"

text \<open>
  The sizing utilities of the stylesheet, as far as the source uses them. Lengths are in
  spacing units (one unit is 0.25rem). \<open>w-N\<close> and \<open>h-N\<close> give a box a fixed width or
  height of \<open>N\<close> units; \<open>w-full\<close> and \<open>h-full\<close> give it the width or height of its
  container. A box has a size in this model when its classes set both.
\<close>

definition size_class :: "string \<Rightarrow> int \<Rightarrow> string \<Rightarrow> int option" where
  "size_class pre full c =
     (if take (length pre) c = pre \<and> length pre < length c then
        (if drop (length pre) c = ''full'' then Some full
         else digits_val 0 (drop (length pre) c))
      else None)"

fun first_size :: "string \<Rightarrow> int \<Rightarrow> string list \<Rightarrow> int option" where
  "first_size pre full [] = None"
| "first_size pre full (c # cs) =
     (case size_class pre full c of Some v \<Rightarrow> Some v | None \<Rightarrow> first_size pre full cs)"

definition box :: "int \<Rightarrow> int \<Rightarrow> node \<Rightarrow> (int \<times> int) option" where
  "box cw ch n =
     (case (first_size ''w-'' cw (class_list n), first_size ''h-'' ch (class_list n)) of
        (Some w, Some h) \<Rightarrow> Some (w, h)
      | _ \<Rightarrow> None)"

text \<open>The box of the media region inside a card whose content box is \<open>cw\<close> by \<open>ch\<close>.\<close>

definition media_box :: "int \<Rightarrow> int \<Rightarrow> node \<Rightarrow> (int \<times> int) option" where
  "media_box cw ch t = (case media_region t of Some m \<Rightarrow> box cw ch m | None \<Rightarrow> None)"

text \<open>Two boxes have the same aspect ratio: width to height is the same in both.\<close>

definition same_aspect :: "(int \<times> int) option \<Rightarrow> (int \<times> int) option \<Rightarrow> bool" where
  "same_aspect a b =
     (case (a, b) of
        (Some (w, h), Some (w', h')) \<Rightarrow> w * h' = w' * h
      | _ \<Rightarrow> False)"

section \<open>Example hosts and records\<close>

text \<open>Decimal digits of a natural number, for the example locales.\<close>

function dec :: "nat \<Rightarrow> string" where
  "dec n = (if n < 10 then [char_of (48 + n)] else dec (n div 10) @ [char_of (48 + n mod 10)])"
  by pat_completeness auto
termination
  by (relation "measure id") auto

declare dec.simps [simp del]

definition en_US :: "int \<Rightarrow> int \<Rightarrow> int \<Rightarrow> string" where
  "en_US y m d = dec (nat m) @ ''/'' @ dec (nat d) @ ''/'' @ dec (nat y)"

definition de_DE :: "int \<Rightarrow> int \<Rightarrow> int \<Rightarrow> string" where
  "de_DE y m d = dec (nat d) @ ''.'' @ dec (nat m) @ ''.'' @ dec (nat y)"

text \<open>
  Three hosts that differ in locale or time zone. Their \<open>Date.parse\<close> rejects every string
  that is not a date-only string. \<open>host_us_east\<close> is five hours behind UTC.
\<close>

definition host_utc_en :: host where
  "host_utc_en = \<lparr>parse_rest = (\<lambda>s. None), local_tza = (\<lambda>t. 0), short_date = en_US\<rparr>"

definition host_utc_de :: host where
  "host_utc_de = \<lparr>parse_rest = (\<lambda>s. None), local_tza = (\<lambda>t. 0), short_date = de_DE\<rparr>"

definition host_us_east :: host where
  "host_us_east =
     \<lparr>parse_rest = (\<lambda>s. None), local_tza = (\<lambda>t. - 18000000), short_date = en_US\<rparr>"

definition article :: NewsCardProps where
  "article =
     \<lparr>title = ''Rates held'', imageUrl = ''/img/rates.png'', summary = ''No change.'',
      publicationDate = ''2024-01-15'', source = ''Reuters''\<rparr>"

section \<open>Facts about the date model\<close>

lemma iso_date_only_2024_01_15: "iso_date_only ''2024-01-15'' = Some (2024, 1, 15)"
  by code_simp

lemma MakeDay_2024_01_15: "MakeDay 2024 1 15 = 19737"
  by code_simp

lemma calendar_anchors:
  "MakeDay 1970 1 1 = 0" "YearMonthDate 0 = (1970, 1, 1)" "YearMonthDate (- 1) = (1969, 12, 31)"
  "YearMonthDate (MakeDay 2000 2 29) = (2000, 2, 29)"
  "YearMonthDate (MakeDay 1900 3 1 - 1) = (1900, 2, 28)"
  by code_simp+

lemma Date_new_2024_01_15: "Date_new h ''2024-01-15'' = Some 1705276800000"
  by (simp add: Date_new_def iso_date_only_2024_01_15 MakeDay_2024_01_15 msPerDay_def)

lemma YearMonthDate_19737: "YearMonthDate 19737 = (2024, 1, 15)"
  by code_simp

lemma YearMonthDate_19736: "YearMonthDate 19736 = (2024, 1, 14)"
  by code_simp

lemma Day_same: "0 \<le> off \<Longrightarrow> off < msPerDay \<Longrightarrow> Day (1705276800000 + off) = 19737"
  unfolding Day_def msPerDay_def by simp

lemma Day_before: "- msPerDay \<le> off \<Longrightarrow> off < 0 \<Longrightarrow> Day (1705276800000 + off) = 19736"
  unfolding Day_def msPerDay_def by simp

lemma Day_utc_midnight: "Day 1705276800000 = 19737"
  by (simp add: Day_def msPerDay_def)

lemma Day_five_hours_before: "Day 1705258800000 = 19736"
  by (simp add: Day_def msPerDay_def)

lemma date_span:
  "map text_content (find_elems (Intrinsic ''span'') (NewsCard h p)) =
     [toLocaleDateString h (Date_new h (publicationDate p))]"
  by (simp add: NewsCard_def)

lemma en_US_15: "en_US 2024 1 15 = ''1/15/2024''"
  by code_simp

lemma en_US_14: "en_US 2024 1 14 = ''1/14/2024''"
  by code_simp

lemma de_DE_15: "de_DE 2024 1 15 = ''15.1.2024''"
  by code_simp

lemma date_text_2024_01_15_any_host:
  "toLocaleDateString h (Date_new h ''2024-01-15'') =
     (case YearMonthDate (Day (1705276800000 + local_tza h 1705276800000)) of
        (y, m, d) \<Rightarrow> short_date h y m d)"
  by (simp add: toLocaleDateString_def Date_new_2024_01_15)

lemma date_text_host_utc_en:
  "toLocaleDateString host_utc_en (Date_new host_utc_en ''2024-01-15'') = ''1/15/2024''"
  by (simp add: date_text_2024_01_15_any_host host_utc_en_def Day_utc_midnight
      YearMonthDate_19737 en_US_15)

lemma date_text_host_utc_de:
  "toLocaleDateString host_utc_de (Date_new host_utc_de ''2024-01-15'') = ''15.1.2024''"
  by (simp add: date_text_2024_01_15_any_host host_utc_de_def Day_utc_midnight
      YearMonthDate_19737 de_DE_15)

lemma date_text_host_us_east:
  "toLocaleDateString host_us_east (Date_new host_us_east ''2024-01-15'') = ''1/14/2024''"
  by (simp add: date_text_2024_01_15_any_host host_us_east_def Day_five_hours_before
      YearMonthDate_19736 en_US_14)

lemma not_a_date_is_not_date_only: "iso_date_only ''not-a-date'' = None"
  by code_simp

lemma Date_new_not_a_date: "Date_new h ''not-a-date'' = parse_rest h ''not-a-date''"
  by (simp add: Date_new_def not_a_date_is_not_date_only)

lemma region_texts:
  "map text_content (children (NewsCard h p)) =
     ['''', title p,
      summary p @ source p @ toLocaleDateString h (Date_new h (publicationDate p))]"
  by (simp add: NewsCard_def)

section \<open>The publication date\<close>

text \<open>
  What line 41 does with \<open>"2024-01-15"\<close> on any host: the string is read as midnight UTC,
  and the day that is rendered is the local day of that instant. On a host at or ahead of
  UTC that is January 15; on a host behind UTC it is the day before.
\<close>

lemma date_text_2024_01_15_by_offset:
  assumes "publicationDate p = ''2024-01-15''"
  shows "(0 \<le> local_tza h 1705276800000 \<and> local_tza h 1705276800000 < msPerDay \<longrightarrow>
            map text_content (find_elems (Intrinsic ''span'') (NewsCard h p)) =
              [short_date h 2024 1 15]) \<and>
         (- msPerDay \<le> local_tza h 1705276800000 \<and> local_tza h 1705276800000 < 0 \<longrightarrow>
            map text_content (find_elems (Intrinsic ''span'') (NewsCard h p)) =
              [short_date h 2024 1 14])"
  using assms
  by (simp add: date_span date_text_2024_01_15_any_host Day_same Day_before
      YearMonthDate_19737 YearMonthDate_19736)

text \<open>
  C2. For \<open>publicationDate = "2024-01-15"\<close> the date text should be the host locale's
  short rendering of January 15, 2024, \<open>1/15/2024\<close> under a US locale. The code misses
  this on a host behind UTC: with the US locale, five hours behind UTC, the date text is
  \<open>1/14/2024\<close>, while the locale renders January 15, 2024 as \<open>1/15/2024\<close>.
\<close>

theorem date_text_behind_utc_is_previous_day:
  "map text_content (find_elems (Intrinsic ''span'') (NewsCard host_us_east article)) =
     [''1/14/2024''] \<and>
   short_date host_us_east 2024 1 15 = ''1/15/2024'' \<and>
   map text_content (find_elems (Intrinsic ''span'') (NewsCard host_us_east article)) \<noteq>
     [short_date host_us_east 2024 1 15]"
  by (simp add: date_span article_def date_text_host_us_east)
    (simp add: host_us_east_def en_US_15)

text \<open>
  C3. When the host's parser rejects the \<open>publicationDate\<close> string, the card is still
  rendered with its three regions, and the date text is \<open>Invalid Date\<close>, which is what
  \<open>toLocaleDateString\<close> returns for an invalid date; the component puts nothing else in
  its place.
\<close>

theorem unparseable_date_renders_invalid_date:
  assumes "Date_new h (publicationDate p) = None"
  shows "map text_content (find_elems (Intrinsic ''span'') (NewsCard h p)) =
           [''Invalid Date''] \<and>
         map text_content (children (NewsCard h p)) =
           ['''', title p, summary p @ source p @ ''Invalid Date'']"
  using assms by (simp add: date_span region_texts toLocaleDateString_def)

theorem unparseable_date_renders_invalid_date_witness:
  "Date_new host_utc_en ''not-a-date'' = None \<and>
   map text_content (find_elems (Intrinsic ''span'')
     (NewsCard host_utc_en (article\<lparr>publicationDate := ''not-a-date''\<rparr>))) =
     [''Invalid Date''] \<and>
   map text_content (children
     (NewsCard host_utc_en (article\<lparr>publicationDate := ''not-a-date''\<rparr>))) =
     ['''', ''Rates held'', ''No change.Reuters'' @ ''Invalid Date'']"
proof -
  have n: "Date_new host_utc_en ''not-a-date'' = None"
    by (simp add: Date_new_not_a_date host_utc_en_def)
  then have "Date_new host_utc_en
      (publicationDate (article\<lparr>publicationDate := ''not-a-date''\<rparr>)) = None"
    by simp
  from unparseable_date_renders_invalid_date [OF this] n show ?thesis
    by (simp add: article_def)
qed

section \<open>The source badge\<close>

text \<open>
  C4. The tree holds exactly one \<open>Badge\<close>, and its visible text is the \<open>source\<close> string,
  character for character; nothing is applied to it.
\<close>

theorem badge_text_is_source:
  "map text_content (find_elems Badge (NewsCard h p)) = [source p]"
  by (simp add: NewsCard_def)

section \<open>Title and summary\<close>

text \<open>
  C5. The title is the text of the one \<open>h3\<close> element, and that element carries the
  two-line clamp class \<open>line-clamp-2\<close> (with \<open>text-xl\<close> and \<open>font-bold\<close>, and no other
  class).
\<close>

theorem title_has_two_line_clamp:
  "map text_content (find_elems (Intrinsic ''h3'') (NewsCard h p)) = [title p] \<and>
   map (has_class ''line-clamp-2'') (find_elems (Intrinsic ''h3'') (NewsCard h p)) = [True] \<and>
   map class_list (find_elems (Intrinsic ''h3'') (NewsCard h p)) =
     [[''text-xl'', ''font-bold'', ''line-clamp-2'']]"
  by (simp add: NewsCard_def has_class_def)

text \<open>
  C6. The summary is the text of the one \<open>p\<close> element, and that element carries the
  three-line clamp class \<open>line-clamp-3\<close>, the same utility as the title's with another
  line count.
\<close>

theorem summary_has_three_line_clamp:
  "map text_content (find_elems (Intrinsic ''p'') (NewsCard h p)) = [summary p] \<and>
   map (has_class ''line-clamp-3'') (find_elems (Intrinsic ''p'') (NewsCard h p)) = [True] \<and>
   map class_list (find_elems (Intrinsic ''p'') (NewsCard h p)) =
     [[''text-gray-300'', ''line-clamp-3'']]"
  by (simp add: NewsCard_def has_class_def)

section \<open>The image\<close>

text \<open>
  C7. With an empty \<open>imageUrl\<close> the card is rendered as for any other record: the
  header and the body are those of the same record with any other \<open>imageUrl\<close>, and
  the image element receives the empty string as its \<open>src\<close>. The component does not
  look at the value; what becomes of it is the image component's business.
\<close>

theorem empty_imageUrl_is_passed_on:
  assumes "imageUrl p = ''''"
  shows "map_option children (media_region (NewsCard h p)) =
           Some [Elem Image_next
                   [(''src'', Str ''''), (''alt'', Str (title p)), (''fill'', Flag True),
                    (''className'', Str ''object-cover''), (''priority'', Flag True)] []] \<and>
         map text_content (children (NewsCard h p)) =
           ['''', title p,
            summary p @ source p @ toLocaleDateString h (Date_new h (publicationDate p))] \<and>
         tl (children (NewsCard h p)) = tl (children (NewsCard h (p\<lparr>imageUrl := u\<rparr>)))"
  using assms by (simp add: region_texts) (simp add: NewsCard_def media_region_def)

theorem empty_imageUrl_is_passed_on_witness:
  "map_option children (media_region (NewsCard host_utc_en (article\<lparr>imageUrl := ''''\<rparr>))) =
     Some [Elem Image_next
             [(''src'', Str ''''), (''alt'', Str ''Rates held''), (''fill'', Flag True),
              (''className'', Str ''object-cover''), (''priority'', Flag True)] []] \<and>
   map text_content (children (NewsCard host_utc_en (article\<lparr>imageUrl := ''''\<rparr>))) =
     ['''', ''Rates held'', ''No change.Reuters1/15/2024''] \<and>
   tl (children (NewsCard host_utc_en (article\<lparr>imageUrl := ''''\<rparr>))) =
     tl (children (NewsCard host_utc_en article))"
proof -
  have "imageUrl (article\<lparr>imageUrl := ''''\<rparr>) = ''''"
    by simp
  from empty_imageUrl_is_passed_on [OF this, of host_utc_en "imageUrl article"]
  show ?thesis
    by (simp add: article_def date_text_host_utc_en)
qed

text \<open>
  C9 as stated fails in one word: the image is not at a fixed aspect. The top region has
  a fixed height and the width of the card, and the image takes the region's size, so in
  a card 80 units wide the region is 80 by 48 and in a card 160 units wide it is 160 by
  48.
\<close>

theorem media_region_aspect_counterexample:
  "media_box 80 100 (NewsCard host_utc_en article) = Some (80, 48) \<and>
   media_box 160 100 (NewsCard host_utc_en article) = Some (160, 48) \<and>
   \<not> same_aspect (media_box 80 100 (NewsCard host_utc_en article))
       (media_box 160 100 (NewsCard host_utc_en article))"
  by (simp add: NewsCard_def media_region_def media_box_def box_def size_class_def
      digit_val_def same_aspect_def)

text \<open>
  C9, as the code has it. The first region of the card is a \<open>div\<close> of fixed height
  (\<open>h-48\<close>) and of the card's width (\<open>w-full\<close>), whatever the card's size. Its only child
  is the one image of the tree. The image gets \<open>imageUrl\<close> as its \<open>src\<close>, no width or
  height of its own but \<open>fill\<close> (it takes the size of the region), the class
  \<open>object-cover\<close> (it is cropped to cover the region) and \<open>priority\<close> (it is loaded
  eagerly).
\<close>

theorem image_fills_media_region:
  "media_box cw ch (NewsCard h p) = Some (cw, 48) \<and>
   map_option class_list (media_region (NewsCard h p)) =
     Some [''relative'', ''h-48'', ''w-full''] \<and>
   map_option children (media_region (NewsCard h p)) =
     Some (find_elems Image_next (NewsCard h p)) \<and>
   map (\<lambda>i. (get_prop ''src'' i, get_prop ''fill'' i, get_prop ''priority'' i, class_list i))
     (find_elems Image_next (NewsCard h p)) =
     [(Some (Str (imageUrl p)), Some (Flag True), Some (Flag True), [''object-cover''])] \<and>
   map (\<lambda>i. (get_prop ''width'' i, get_prop ''height'' i))
     (find_elems Image_next (NewsCard h p)) = [(None, None)]"
  by (simp add: NewsCard_def media_region_def media_box_def box_def size_class_def
      digit_val_def)

text \<open>
  C10. The title is handed to the output twice: as the \<open>alt\<close> property of the image and
  as the text of the header. When it differs from every other string of the tree, these
  are its only two occurrences.
\<close>

theorem title_is_alt_and_header:
  "map (get_prop ''alt'') (find_elems Image_next (NewsCard h p)) = [Some (Str (title p))] \<and>
   map_option text_content (header_region (NewsCard h p)) = Some (title p) \<and>
   2 \<le> occurrences (title p) (NewsCard h p) \<and>
   (title p \<notin> set (other_strings h p) \<longrightarrow> occurrences (title p) (NewsCard h p) = 2)"
  by (simp add: NewsCard_def header_region_def other_strings_def)

theorem title_is_alt_and_header_witness:
  "''Rates held'' \<notin> set (other_strings host_utc_en article) \<and>
   occurrences ''Rates held'' (NewsCard host_utc_en article) = 2"
proof -
  have n: "title article \<notin> set (other_strings host_utc_en article)"
    by (simp add: other_strings_def article_def date_text_host_utc_en)
  with title_is_alt_and_header [of host_utc_en article] show ?thesis
    by (simp add: article_def)
qed

section \<open>Fields and regions\<close>

text \<open>
  C8 as stated fails for the title: it is mapped to two regions. Two records that differ
  in the title alone differ in the header region and in the media region, where the title
  is the image's \<open>alt\<close> text.
\<close>

theorem title_reaches_two_regions_counterexample:
  "media_region (NewsCard host_utc_en article) \<noteq>
     media_region (NewsCard host_utc_en (article\<lparr>title := ''Rates cut''\<rparr>)) \<and>
   header_region (NewsCard host_utc_en article) \<noteq>
     header_region (NewsCard host_utc_en (article\<lparr>title := ''Rates cut''\<rparr>))"
  by (simp add: NewsCard_def media_region_def header_region_def article_def)

text \<open>
  C8, as the code has it. The card has three regions. The media region is determined by
  \<open>imageUrl\<close> and \<open>title\<close> (the image's \<open>src\<close> and \<open>alt\<close>), the header by \<open>title\<close>, the
  body by \<open>summary\<close>, \<open>source\<close> and the date text. The visible text of the regions is the
  fields as they are, but for the date, which is formatted. The function has no state to
  read or write: the tree is all it produces.
\<close>

theorem fields_to_regions:
  "length (children (NewsCard h p)) = 3 \<and>
   (imageUrl p = imageUrl q \<and> title p = title q \<longrightarrow>
      media_region (NewsCard h p) = media_region (NewsCard h' q)) \<and>
   (title p = title q \<longrightarrow>
      header_region (NewsCard h p) = header_region (NewsCard h' q)) \<and>
   (summary p = summary q \<and> source p = source q \<and>
    toLocaleDateString h (Date_new h (publicationDate p)) =
      toLocaleDateString h' (Date_new h' (publicationDate q)) \<longrightarrow>
      body_region (NewsCard h p) = body_region (NewsCard h' q)) \<and>
   map text_content (children (NewsCard h p)) =
     ['''', title p,
      summary p @ source p @ toLocaleDateString h (Date_new h (publicationDate p))] \<and>
   map_option (map (\<lambda>i. (get_prop ''src'' i, get_prop ''alt'' i)) \<circ> children)
     (media_region (NewsCard h p)) =
     Some [(Some (Str (imageUrl p)), Some (Str (title p)))]"
  by (simp add: region_texts) (simp add: NewsCard_def media_region_def header_region_def
      body_region_def)

theorem fields_to_regions_witness:
  "media_region (NewsCard host_utc_en article) =
     media_region (NewsCard host_us_east
       (article\<lparr>summary := ''Cut.'', publicationDate := ''not-a-date'', source := ''AP''\<rparr>)) \<and>
   header_region (NewsCard host_utc_en article) =
     header_region (NewsCard host_us_east
       (article\<lparr>imageUrl := '''', summary := ''Cut.'', publicationDate := ''not-a-date'',
          source := ''AP''\<rparr>)) \<and>
   body_region (NewsCard host_utc_en article) =
     body_region (NewsCard host_utc_en (article\<lparr>title := ''Rates cut'', imageUrl := ''''\<rparr>))"
proof -
  have "media_region (NewsCard host_utc_en article) =
     media_region (NewsCard host_us_east
       (article\<lparr>summary := ''Cut.'', publicationDate := ''not-a-date'', source := ''AP''\<rparr>))"
    using fields_to_regions [of host_utc_en article
        "article\<lparr>summary := ''Cut.'', publicationDate := ''not-a-date'', source := ''AP''\<rparr>"
        host_us_east]
    by simp
  moreover
  have "header_region (NewsCard host_utc_en article) =
     header_region (NewsCard host_us_east
       (article\<lparr>imageUrl := '''', summary := ''Cut.'', publicationDate := ''not-a-date'',
          source := ''AP''\<rparr>))"
    using fields_to_regions [of host_utc_en article
        "article\<lparr>imageUrl := '''', summary := ''Cut.'', publicationDate := ''not-a-date'',
           source := ''AP''\<rparr>"
        host_us_east]
    by simp
  moreover
  have "body_region (NewsCard host_utc_en article) =
     body_region (NewsCard host_utc_en (article\<lparr>title := ''Rates cut'', imageUrl := ''''\<rparr>))"
    using fields_to_regions [of host_utc_en article
        "article\<lparr>title := ''Rates cut'', imageUrl := ''''\<rparr>" host_utc_en]
    by simp
  ultimately show ?thesis
    by simp
qed

section \<open>What the output depends on\<close>

text \<open>
  C1 as stated fails: the date text is read from the host. The same record gives
  \<open>1/15/2024\<close> on a host with the US locale and \<open>15.1.2024\<close> on a host with the German
  locale, so the two trees differ.
\<close>

theorem same_record_two_hosts_counterexample:
  "NewsCard host_utc_en article \<noteq> NewsCard host_utc_de article"
  by (simp add: NewsCard_def article_def date_text_host_utc_en date_text_host_utc_de)

text \<open>
  C1, as the code has it. Two calls return the same tree exactly when they agree on
  \<open>title\<close>, \<open>imageUrl\<close>, \<open>summary\<close> and \<open>source\<close> and on the date text that the host
  gives for \<open>publicationDate\<close>: each of the four fields and the date text shows in the
  output, and nothing else does. In particular, on one host (the same date parser, time
  zone and default locale) two calls with the same five field values return the same
  tree, whatever else the two property objects and the two hosts hold.
\<close>

theorem output_equal_iff_fields_and_date_text:
  fixes p :: "'a NewsCardProps_scheme" and q :: "'b NewsCardProps_scheme"
    and h :: "'c host_scheme" and h' :: "'d host_scheme"
  shows "(NewsCard h p = NewsCard h' q) =
           (title p = title q \<and> imageUrl p = imageUrl q \<and> summary p = summary q \<and>
            source p = source q \<and>
            toLocaleDateString h (Date_new h (publicationDate p)) =
              toLocaleDateString h' (Date_new h' (publicationDate q))) \<and>
         (title p = title q \<and> imageUrl p = imageUrl q \<and> summary p = summary q \<and>
          publicationDate p = publicationDate q \<and> source p = source q \<and>
          parse_rest h = parse_rest h' \<and> local_tza h = local_tza h' \<and>
          short_date h = short_date h' \<longrightarrow>
            NewsCard h p = NewsCard h' q)"
proof (intro conjI impI)
  show iff: "(NewsCard h p = NewsCard h' q) =
           (title p = title q \<and> imageUrl p = imageUrl q \<and> summary p = summary q \<and>
            source p = source q \<and>
            toLocaleDateString h (Date_new h (publicationDate p)) =
              toLocaleDateString h' (Date_new h' (publicationDate q)))"
    by (auto simp add: NewsCard_def)
  assume a: "title p = title q \<and> imageUrl p = imageUrl q \<and> summary p = summary q \<and>
          publicationDate p = publicationDate q \<and> source p = source q \<and>
          parse_rest h = parse_rest h' \<and> local_tza h = local_tza h' \<and>
          short_date h = short_date h'"
  then have "Date_new h (publicationDate p) = Date_new h' (publicationDate q)"
    unfolding Date_new_def by (simp cong: option.case_cong)
  with a have "toLocaleDateString h (Date_new h (publicationDate p)) =
      toLocaleDateString h' (Date_new h' (publicationDate q))"
    unfolding toLocaleDateString_def by (simp cong: option.case_cong)
  with a iff show "NewsCard h p = NewsCard h' q"
    by simp
qed

theorem output_equal_iff_fields_and_date_text_witness:
  "NewsCard host_utc_en article =
     NewsCard (host.extend host_utc_en (7::nat)) (NewsCardProps.extend article ''draft'') \<and>
   NewsCard host_utc_en article \<noteq>
     NewsCard host_utc_en (NewsCardProps.extend (article\<lparr>source := ''AP''\<rparr>) ''draft'')"
proof -
  have "NewsCard host_utc_en article =
     NewsCard (host.extend host_utc_en (7::nat)) (NewsCardProps.extend article ''draft'')"
    using output_equal_iff_fields_and_date_text
      [of host_utc_en article "host.extend host_utc_en (7::nat)"
        "NewsCardProps.extend article ''draft''"]
    by (simp add: host.defs NewsCardProps.defs host_utc_en_def article_def)
  moreover
  have "NewsCard host_utc_en article \<noteq>
     NewsCard host_utc_en (NewsCardProps.extend (article\<lparr>source := ''AP''\<rparr>) ''draft'')"
    using output_equal_iff_fields_and_date_text
      [of host_utc_en article host_utc_en
        "NewsCardProps.extend (article\<lparr>source := ''AP''\<rparr>) ''draft''"]
    by (simp add: NewsCardProps.defs article_def)
  ultimately show ?thesis
    by simp
qed

end
